theory Spec2Isabelle
  imports Main "HOL-Library.Word" "HOL-Library.Sublist"
begin

section \<open>JavaScript strings\<close>

text \<open>
  A JavaScript string is a sequence of UTF-16 code units; \<open>length\<close>, \<open>substring\<close>,
  \<open>startsWith\<close>, \<open>includes\<close> and the regular expressions used by the sources (none has
  the \<open>u\<close> flag) all work on code units. \<open>js\<close> embeds an ASCII literal.
\<close>

type_synonym jschar = "16 word"
type_synonym jsstring = "jschar list"

definition js :: "string \<Rightarrow> jsstring" where
  "js s = map of_char s"

definition startsWith :: "jsstring \<Rightarrow> jsstring \<Rightarrow> bool" where
  "startsWith s p = prefix p s"

text \<open>\<open>\d\<close>: the ASCII digits only.\<close>

definition isDigit :: "jschar \<Rightarrow> bool" where
  "isDigit c = (0x30 \<le> c \<and> c \<le> 0x39)"

text \<open>
  \<open>\s\<close>, and the characters removed by \<open>trim()\<close>: the ECMAScript WhiteSpace and
  LineTerminator code points.
\<close>

definition isSpace :: "jschar \<Rightarrow> bool" where
  "isSpace c = (c = 0x09 \<or> c = 0x0A \<or> c = 0x0B \<or> c = 0x0C \<or> c = 0x0D \<or> c = 0x20
     \<or> c = 0xA0 \<or> c = 0x1680 \<or> (0x2000 \<le> c \<and> c \<le> 0x200A) \<or> c = 0x2028 \<or> c = 0x2029
     \<or> c = 0x202F \<or> c = 0x205F \<or> c = 0x3000 \<or> c = 0xFEFF)"

definition trim :: "jsstring \<Rightarrow> jsstring" where
  "trim s = rev (dropWhile isSpace (rev (dropWhile isSpace s)))"

text \<open>\<open>s.includes(k)\<close>: \<open>k\<close> occurs in \<open>s\<close> as a contiguous run of code units.\<close>

fun includes_str :: "jsstring \<Rightarrow> jsstring \<Rightarrow> bool" where
  "includes_str [] k = (k = [])"
| "includes_str (c # cs) k = (prefix k (c # cs) \<or> includes_str cs k)"

text \<open>An \<open>Error\<close> object, identified by its message.\<close>

datatype error = Error jsstring

fun message_of :: "error \<Rightarrow> jsstring" where
  "message_of (Error m) = m"

section \<open>Phone number normalizer (src/lib/whatsapp.tsx)\<close>

text \<open>
  The entries of \<open>countryCodeMap\<close> in the order \<open>Object.entries\<close> yields them: the keys
  are canonical array indices, so they come in ascending numeric order, whatever the order
  of the literal.
\<close>

definition countryCodeMap :: "(jsstring \<times> jsstring) list" where
  "countryCodeMap =
    [(js ''221'', js ''+221''), (js ''223'', js ''+223''), (js ''224'', js ''+224''),
     (js ''225'', js ''+225''), (js ''226'', js ''+226''), (js ''227'', js ''+227''),
     (js ''228'', js ''+228''), (js ''229'', js ''+229''), (js ''230'', js ''+230''),
     (js ''231'', js ''+231''), (js ''232'', js ''+232''), (js ''233'', js ''+233''),
     (js ''234'', js ''+234''), (js ''235'', js ''+235''), (js ''236'', js ''+236''),
     (js ''237'', js ''+237''), (js ''238'', js ''+238''), (js ''239'', js ''+239''),
     (js ''240'', js ''+240''), (js ''241'', js ''+241''), (js ''242'', js ''+242''),
     (js ''243'', js ''+243''), (js ''244'', js ''+244''), (js ''245'', js ''+245''),
     (js ''246'', js ''+246''), (js ''247'', js ''+247''), (js ''248'', js ''+248''),
     (js ''249'', js ''+249''), (js ''250'', js ''+250''), (js ''251'', js ''+251''),
     (js ''252'', js ''+252''), (js ''253'', js ''+253''), (js ''254'', js ''+254''),
     (js ''255'', js ''+255''), (js ''256'', js ''+256''), (js ''257'', js ''+257''),
     (js ''258'', js ''+258''), (js ''260'', js ''+260''), (js ''261'', js ''+261''),
     (js ''262'', js ''+262''), (js ''263'', js ''+263''), (js ''264'', js ''+264''),
     (js ''265'', js ''+265''), (js ''266'', js ''+266''), (js ''267'', js ''+267''),
     (js ''268'', js ''+268''), (js ''269'', js ''+269''), (js ''290'', js ''+290''),
     (js ''291'', js ''+291''), (js ''297'', js ''+297''), (js ''298'', js ''+298''),
     (js ''299'', js ''+299'')]"

text \<open>\<open>/[^\d+]/g\<close> removed: only digits and plus signs stay.\<close>

definition phoneChar :: "jschar \<Rightarrow> bool" where
  "phoneChar c = (isDigit c \<or> c = 0x2B)"

text \<open>
  The parameter has type \<open>string\<close>, so of the guard \<open>!phoneNumber || typeof ... \<close> only
  the empty string is left. The loop over the table returns at the first code the cleaned
  number starts with.
\<close>

definition normalizePhoneNumber :: "jsstring \<Rightarrow> jsstring" where
  "normalizePhoneNumber phoneNumber =
    (if phoneNumber = [] then []
     else
       let cleaned = filter phoneChar phoneNumber in
       if startsWith cleaned (js ''+'') then cleaned
       else
         (case find (\<lambda>(code, pre). startsWith cleaned code) countryCodeMap of
            Some (code, pre) \<Rightarrow> pre @ drop (length code) cleaned
          | None \<Rightarrow>
              if startsWith cleaned (js ''0'') then js ''+242'' @ drop 1 cleaned
              else js ''+242'' @ cleaned))"


section \<open>Message sanitizer (src/lib/whatsapp.tsx)\<close>

text \<open>
  \<open>replace(/<[^>]*>/g, '')\<close>: at a \<open><\<close> the greedy class runs to the first \<open>>\<close> behind it,
  which closes the match; a \<open><\<close> with no \<open>>\<close> behind it matches nothing and stays.
\<close>

function removeTags :: "jsstring \<Rightarrow> jsstring" where
  "removeTags [] = []"
| "removeTags (c # cs) =
     (if c = 0x3C \<and> 0x3E \<in> set cs
      then removeTags (drop 1 (dropWhile (\<lambda>x. x \<noteq> 0x3E) cs))
      else c # removeTags cs)"
  by pat_completeness auto
termination
  by (relation "measure length")
     (auto simp: less_Suc_eq_le intro: le_trans [OF diff_le_self length_dropWhile_le])

text \<open>\<open>replace(/[<>]/g, '')\<close>.\<close>

definition removeAngleBrackets :: "jsstring \<Rightarrow> jsstring" where
  "removeAngleBrackets s = filter (\<lambda>c. c \<noteq> 0x3C \<and> c \<noteq> 0x3E) s"

text \<open>
  \<open>replace(new RegExp(pat, 'g'), rep)\<close> for a pattern without regular-expression
  syntax and a replacement without \<open>$\<close>: every occurrence of the literal, left to right,
  not overlapping. (The entity patterns are of this kind and not empty; an empty pattern
  is left out of the model, which then returns the string as it is.)
\<close>

function replaceAll :: "jsstring \<Rightarrow> jsstring \<Rightarrow> jsstring \<Rightarrow> jsstring" where
  "replaceAll pat rep [] = []"
| "replaceAll pat rep (c # cs) =
     (if pat \<noteq> [] \<and> prefix pat (c # cs)
      then rep @ replaceAll pat rep (drop (length pat) (c # cs))
      else c # replaceAll pat rep cs)"
  by pat_completeness auto
termination
  by (relation "measure (\<lambda>(pat, rep, s). length s)") (auto simp: neq_Nil_conv)

text \<open>The table \<open>htmlEntities\<close>, in insertion order (its keys are not array indices).\<close>

definition htmlEntities :: "(jsstring \<times> jsstring) list" where
  "htmlEntities =
    [(js ''&amp;'', js ''&''), (js ''&lt;'', js ''<''), (js ''&gt;'', js ''>''),
     (js ''&quot;'', [0x22]), (js ''&#39;'', [0x27]), (js ''&nbsp;'', js '' ''),
     (js ''&copy;'', [0xA9]), (js ''&reg;'', [0xAE]), (js ''&trade;'', [0x2122])]"

definition decodeEntities :: "jsstring \<Rightarrow> jsstring" where
  "decodeEntities s = foldl (\<lambda>cleanMessage (entity, ch). replaceAll entity ch cleanMessage) s htmlEntities"

text \<open>
  \<open>replace(/&[a-zA-Z0-9#]+;/g, '')\<close>: behind an \<open>&\<close> the class takes the longest run of
  its characters; the match needs the run not empty and a \<open>;\<close> right behind it (a shorter
  run cannot help: \<open>;\<close> is not in the class).
\<close>

definition entityChar :: "jschar \<Rightarrow> bool" where
  "entityChar c = ((0x61 \<le> c \<and> c \<le> 0x7A) \<or> (0x41 \<le> c \<and> c \<le> 0x5A) \<or> isDigit c \<or> c = 0x23)"

function removeEntities :: "jsstring \<Rightarrow> jsstring" where
  "removeEntities [] = []"
| "removeEntities (c # cs) =
     (if c = 0x26 \<and> takeWhile entityChar cs \<noteq> []
         \<and> startsWith (dropWhile entityChar cs) (js '';'')
      then removeEntities (drop 1 (dropWhile entityChar cs))
      else c # removeEntities cs)"
  by pat_completeness auto
termination
  by (relation "measure length")
     (auto simp: less_Suc_eq_le intro: le_trans [OF diff_le_self length_dropWhile_le])

text \<open>\<open>replace(/\s+/g, ' ')\<close>.\<close>

function collapseWhitespace :: "jsstring \<Rightarrow> jsstring" where
  "collapseWhitespace [] = []"
| "collapseWhitespace (c # cs) =
     (if isSpace c then 0x20 # collapseWhitespace (dropWhile isSpace cs)
      else c # collapseWhitespace cs)"
  by pat_completeness auto
termination
  by (relation "measure length") (auto simp: less_Suc_eq_le length_dropWhile_le)

text \<open>Steps 1 to 5 of \<open>sanitizeWhatsAppMessage\<close>.\<close>

definition cleanMessage :: "jsstring \<Rightarrow> jsstring" where
  "cleanMessage message =
     trim (collapseWhitespace (removeEntities (decodeEntities (removeAngleBrackets (removeTags message)))))"

definition emptyAfterSanitization :: error where
  "emptyAfterSanitization = Error (js ''Message is empty after sanitization'')"

text \<open>
  The guard at the top returns the empty string for the empty string (the \<open>typeof\<close> test
  is decided by the parameter's type); step 6 throws; step 7 cuts.
\<close>

definition sanitizeWhatsAppMessage :: "jsstring \<Rightarrow> error + jsstring" where
  "sanitizeWhatsAppMessage message =
    (if message = [] then Inr []
     else
       let c = cleanMessage message in
       if length c = 0 then Inl emptyAfterSanitization
       else if length c > 4096 then Inr (take 4093 c @ js ''...'')
       else Inr c)"

section \<open>Intent classifier (supabase/functions/webhook-handler/index.ts)\<close>

datatype chatbotType = Client | Education | Quiz

definition educationKeywords :: "jsstring list" where
  "educationKeywords =
    [js ''learn'', js ''study'', js ''course'', js ''education'', js ''school'', js ''homework'',
     js ''assignment'', js ''question'', js ''apprendre'', 0xE9 # js ''tudier'', js ''cours'',
     0xE9 # js ''ducation'', 0xE9 # js ''cole'', js ''devoir'', js ''exercice'']"

definition quizKeywords :: "jsstring list" where
  "quizKeywords =
    [js ''quiz'', js ''game'', js ''test'', js ''play'', js ''challenge'', js ''question'',
     js ''answer'', js ''jeu'', js ''d'' @ 0xE9 # js ''fi'', js ''r'' @ 0xE9 # js ''ponse'',
     js ''questionnaire'']"

text \<open>
  \<open>String.prototype.toLowerCase\<close> is the language's Unicode case mapping, not code of
  the repository: the classifier takes it as the parameter \<open>toLowerCase\<close>.
\<close>

definition determineChatbotType :: "(jsstring \<Rightarrow> jsstring) \<Rightarrow> jsstring \<Rightarrow> chatbotType" where
  "determineChatbotType toLowerCase message =
    (let lowerMessage = toLowerCase message in
     if list_ex (\<lambda>keyword. includes_str lowerMessage keyword) educationKeywords then Education
     else if list_ex (\<lambda>keyword. includes_str lowerMessage keyword) quizKeywords then Quiz
     else Client)"

text \<open>What \<open>toLowerCase\<close> does on a string of ASCII code units.\<close>

definition toLowerCaseAscii :: "jsstring \<Rightarrow> jsstring" where
  "toLowerCaseAscii s = map (\<lambda>c. if 0x41 \<le> c \<and> c \<le> 0x5A then c + 0x20 else c) s"

section \<open>The record store\<close>

text \<open>
  The two tables the delivery code reads and writes. A value that may be \<open>null\<close> or
  \<open>undefined\<close> is an \<open>option\<close>; \<open>truthy\<close> is JavaScript's test of such a string.
  Times are milliseconds of the wall clock, which the operations take as the parameter
  \<open>now\<close>. The client never throws: a request the store cannot serve comes back with
  \<open>error\<close> set, which \<open>store_fault\<close> models for the length of one operation.
\<close>

definition truthy :: "jsstring option \<Rightarrow> bool" where
  "truthy v = (case v of None \<Rightarrow> False | Some s \<Rightarrow> s \<noteq> [])"

record config_row =
  cfg_user_id :: jsstring
  cfg_is_active :: bool
  cfg_access_token :: "jsstring option"
  cfg_phone_number_id :: "jsstring option"
  cfg_whatsapp_business_account_id :: "jsstring option"
  cfg_updated_at :: nat

record message_log =
  log_status :: jsstring
  log_phone_number :: jsstring
  log_message_preview :: jsstring
  log_message_id :: "jsstring option"
  log_error :: "jsstring option"
  log_created_at :: nat
  log_updated_at :: "nat option"

record store =
  user_whatsapp_config :: "config_row list"
  message_logs :: "message_log list"
  store_fault :: "error option"

text \<open>
  \<open>maybeSingle()\<close>: no row is \<open>null\<close>, one row is the row, more rows are an error.
\<close>

definition maybeSingle :: "error option \<Rightarrow> 'a list \<Rightarrow> error + 'a option" where
  "maybeSingle fault rows =
    (case fault of
       Some e \<Rightarrow> Inl e
     | None \<Rightarrow>
         (case rows of
            [] \<Rightarrow> Inr None
          | [r] \<Rightarrow> Inr (Some r)
          | _ \<Rightarrow> Inl (Error (js ''JSON object requested, multiple (or no) rows returned''))))"

text \<open>
  \<open>order('updated_at', { ascending: false }).limit(1)\<close>: a row with the greatest
  \<open>updated_at\<close>; among equals the store may give any, the model gives the first.
\<close>

fun mostRecent :: "config_row list \<Rightarrow> config_row list" where
  "mostRecent [] = []"
| "mostRecent (r # rs) =
     (case mostRecent rs of
        [] \<Rightarrow> [r]
      | m # _ \<Rightarrow> if cfg_updated_at r < cfg_updated_at m then [m] else [r])"

text \<open>\<open>from('message_logs').insert(row)\<close>, whose result the callers do not look at.\<close>

definition insert_log :: "store \<Rightarrow> message_log \<Rightarrow> store" where
  "insert_log db row =
    (case store_fault db of
       Some e \<Rightarrow> db
     | None \<Rightarrow> db\<lparr>message_logs := message_logs db @ [row]\<rparr>)"

section \<open>Configuration resolution (src/lib/whatsapp.tsx)\<close>

datatype config_source = user_config | fallback_user_config

record whatsapp_config =
  accessToken :: jsstring
  phoneNumberId :: jsstring
  whatsappBusinessAccountId :: "jsstring option"
  source :: config_source

definition noActiveConfig :: error where
  "noActiveConfig = Error (js (''No active WhatsApp configuration found. '' @
     ''Please configure your WhatsApp API credentials in the settings.''))"

definition has_credentials :: "config_row \<Rightarrow> bool" where
  "has_credentials r = (truthy (cfg_access_token r) \<and> truthy (cfg_phone_number_id r))"

definition config_of :: "config_row \<Rightarrow> config_source \<Rightarrow> whatsapp_config" where
  "config_of r src =
    \<lparr>accessToken = (case cfg_access_token r of Some t \<Rightarrow> t | None \<Rightarrow> []),
     phoneNumberId = (case cfg_phone_number_id r of Some p \<Rightarrow> p | None \<Rightarrow> []),
     whatsappBusinessAccountId =
       (if truthy (cfg_whatsapp_business_account_id r) then cfg_whatsapp_business_account_id r else None),
     source = src\<rparr>"

text \<open>The first query, made only for a truthy \<open>userId\<close>; \<open>None\<close> is falling through.\<close>

definition userScopedConfig :: "store \<Rightarrow> jsstring option \<Rightarrow> whatsapp_config option" where
  "userScopedConfig db userId =
    (case userId of
       None \<Rightarrow> None
     | Some u \<Rightarrow>
         if u = [] then None
         else
           (case maybeSingle (store_fault db)
                   (filter (\<lambda>r. cfg_user_id r = u \<and> cfg_is_active r) (user_whatsapp_config db)) of
              Inr (Some userConfig) \<Rightarrow>
                if has_credentials userConfig then Some (config_of userConfig user_config) else None
            | _ \<Rightarrow> None))"

definition getWhatsAppConfig :: "store \<Rightarrow> jsstring option \<Rightarrow> error + whatsapp_config" where
  "getWhatsAppConfig db userId =
    (case userScopedConfig db userId of
       Some c \<Rightarrow> Inr c
     | None \<Rightarrow>
         (case maybeSingle (store_fault db)
                 (mostRecent (filter cfg_is_active (user_whatsapp_config db))) of
            Inr (Some anyUserConfig) \<Rightarrow>
              if has_credentials anyUserConfig
              then Inr (config_of anyUserConfig fallback_user_config)
              else Inl noActiveConfig
          | _ \<Rightarrow> Inl noActiveConfig))"

section \<open>Delivery channel (src/lib/whatsapp.tsx)\<close>

text \<open>
  The network and the regular-expression engine are the platform's: \<open>new URL(u)\<close> throws
  on a malformed address, \<open>fetch\<close> of a HEAD request or of the provider's messages endpoint
  throws or answers, and \<open>s.replace(new RegExp(p, 'g'), v)\<close> throws on a malformed pattern
  or gives the new string. Each is a field of \<open>network\<close>.
\<close>

datatype mediaType = image | video | document

fun mediaTypeUpper :: "mediaType \<Rightarrow> jsstring" where
  "mediaTypeUpper image = js ''IMAGE''"
| "mediaTypeUpper video = js ''VIDEO''"
| "mediaTypeUpper document = js ''DOCUMENT''"

record media =
  media_type :: mediaType
  media_url :: "jsstring option"

record payload =
  p_to :: jsstring
  p_type :: "mediaType option"
  p_text_body :: "jsstring option"
  p_link :: "jsstring option"
  p_caption :: "jsstring option"

datatype head_response =
  HeadThrows error
| HeadResponse bool nat jsstring

datatype provider_response =
  SendThrows error
| SendNotOk "jsstring option" jsstring
| SendOk "jsstring option"

record network =
  newURL :: "jsstring \<Rightarrow> error option"
  fetchHead :: "jsstring \<Rightarrow> head_response"
  fetchMessages :: "jsstring \<Rightarrow> jsstring \<Rightarrow> payload \<Rightarrow> provider_response"
  regExpReplace :: "jsstring \<Rightarrow> jsstring \<Rightarrow> jsstring \<Rightarrow> error + jsstring"

text \<open>A number in a template literal: its decimal digits.\<close>

function showNat :: "nat \<Rightarrow> jsstring" where
  "showNat n = (if n < 10 then [0x30 + of_nat n] else showNat (n div 10) @ [0x30 + of_nat (n mod 10)])"
  by pat_completeness auto
termination
  by (relation "measure id") auto

definition basePayload :: "jsstring \<Rightarrow> media option \<Rightarrow> payload" where
  "basePayload to m =
    \<lparr>p_to = to, p_type = map_option media_type m, p_text_body = None, p_link = None, p_caption = None\<rparr>"

text \<open>
  \<open>x && x.trim()\<close> on a string: not empty and not only white space.
\<close>

definition hasText :: "jsstring \<Rightarrow> bool" where
  "hasText s = (s \<noteq> [] \<and> trim s \<noteq> [])"

definition withMedia :: "payload \<Rightarrow> jsstring \<Rightarrow> jsstring \<Rightarrow> payload" where
  "withMedia messagePayload url caption =
    messagePayload\<lparr>p_link := Some url, p_caption := (if hasText caption then Some caption else None)\<rparr>"

text \<open>The media branch of \<open>sendWhatsAppResponse\<close>, with its inner \<open>try\<close>/\<open>catch\<close>.\<close>

definition responseMediaPayload :: "network \<Rightarrow> payload \<Rightarrow> jsstring \<Rightarrow> jsstring \<Rightarrow> error + payload" where
  "responseMediaPayload net messagePayload url sanitizedMessage =
    (case (case newURL net url of
             Some e \<Rightarrow> Inl e
           | None \<Rightarrow>
               (case fetchHead net url of
                  HeadThrows e \<Rightarrow> Inl e
                | HeadResponse ok status statusText \<Rightarrow>
                    if \<not> ok then Inl (Error (js ''Media URL not accessible: '' @ showNat status))
                    else Inr (withMedia messagePayload url sanitizedMessage))) of
       Inl urlError \<Rightarrow> Inl (Error (js ''Invalid media URL: '' @ message_of urlError))
     | Inr p \<Rightarrow> Inr p)"

definition responsePayload :: "network \<Rightarrow> jsstring \<Rightarrow> jsstring \<Rightarrow> media option \<Rightarrow> error + payload" where
  "responsePayload net to sanitizedMessage m =
    (case m of
       None \<Rightarrow> Inr ((basePayload to m)\<lparr>p_text_body := Some sanitizedMessage\<rparr>)
     | Some md \<Rightarrow>
         (case media_url md of
            None \<Rightarrow> Inr ((basePayload to m)\<lparr>p_text_body := Some sanitizedMessage\<rparr>)
          | Some url \<Rightarrow>
              if url = [] then Inr ((basePayload to m)\<lparr>p_text_body := Some sanitizedMessage\<rparr>)
              else responseMediaPayload net (basePayload to m) url sanitizedMessage))"

definition orElse :: "jsstring option \<Rightarrow> jsstring \<Rightarrow> jsstring" where
  "orElse v d = (case v of None \<Rightarrow> d | Some s \<Rightarrow> if s = [] then d else s)"

definition responsePreview :: "media option \<Rightarrow> jsstring \<Rightarrow> jsstring" where
  "responsePreview m sanitizedMessage =
    (case m of
       Some md \<Rightarrow> js ''['' @ mediaTypeUpper (media_type md) @ js ''] '' @ take 80 sanitizedMessage
     | None \<Rightarrow> take 100 sanitizedMessage)"

definition sentLog :: "jsstring \<Rightarrow> jsstring \<Rightarrow> jsstring option \<Rightarrow> nat \<Rightarrow> message_log" where
  "sentLog to preview messageId now =
    \<lparr>log_status = js ''sent'', log_phone_number = to, log_message_preview = preview,
     log_message_id = messageId, log_error = None, log_created_at = now, log_updated_at = None\<rparr>"

definition errorLog :: "jsstring \<Rightarrow> jsstring \<Rightarrow> jsstring \<Rightarrow> nat \<Rightarrow> message_log" where
  "errorLog to preview err now =
    \<lparr>log_status = js ''error'', log_phone_number = to, log_message_preview = preview,
     log_message_id = None, log_error = Some err, log_created_at = now, log_updated_at = None\<rparr>"

text \<open>
  \<open>sendWhatsAppResponse(to, message, media, userId)\<close>. The result is the thrown error or
  the id in the provider's answer (\<open>result.messages?.[0]?.id\<close>), with the store after the
  call. The outer \<open>catch\<close> prints and throws the error again.
\<close>

definition sendWhatsAppResponse ::
  "network \<Rightarrow> store \<Rightarrow> nat \<Rightarrow> jsstring \<Rightarrow> jsstring \<Rightarrow> media option \<Rightarrow> jsstring option
     \<Rightarrow> (error + jsstring option) \<times> store" where
  "sendWhatsAppResponse net db now to message m userId =
    (case sanitizeWhatsAppMessage message of
       Inl e \<Rightarrow> (Inl e, db)
     | Inr sanitizedMessage \<Rightarrow>
         (case getWhatsAppConfig db userId of
            Inl e \<Rightarrow> (Inl e, db)
          | Inr config \<Rightarrow>
              (case responsePayload net to sanitizedMessage m of
                 Inl e \<Rightarrow> (Inl e, db)
               | Inr messagePayload \<Rightarrow>
                   (case fetchMessages net (phoneNumberId config) (accessToken config) messagePayload of
                      SendThrows e \<Rightarrow> (Inl e, db)
                    | SendNotOk errorMessage statusText \<Rightarrow>
                        (Inl (Error (js ''Failed to send WhatsApp response: '' @ orElse errorMessage statusText)), db)
                    | SendOk messageId \<Rightarrow>
                        (Inr messageId,
                         insert_log db (sentLog to (responsePreview m sanitizedMessage) messageId now))))))"

subsection \<open>Batch sending\<close>

record batch_message =
  msg_phoneNumber :: jsstring
  msg_message :: jsstring
  msg_variables :: "(jsstring \<times> jsstring) list option"
  msg_media :: "media option"

datatype result_status = status_success | status_error

record MessageResult =
  res_status :: result_status
  res_phoneNumber :: jsstring
  res_message :: jsstring
  res_timestamp :: nat
  res_messageId :: "jsstring option"
  res_error :: "jsstring option"








text \<open>The media branch of the batch sender, with its inner \<open>try\<close>/\<open>catch\<close>.\<close>

definition batchMediaPayload :: "network \<Rightarrow> payload \<Rightarrow> jsstring \<Rightarrow> jsstring \<Rightarrow> error + payload" where
  "batchMediaPayload net messagePayload url caption =
    (case (case newURL net url of
             Some e \<Rightarrow> Inl e
           | None \<Rightarrow>
               (case fetchHead net url of
                  HeadThrows e \<Rightarrow> Inl e
                | HeadResponse ok status statusText \<Rightarrow>
                    if \<not> ok
                    then Inl (Error (js ''Media URL not accessible: '' @ showNat status @ js '' '' @ statusText))
                    else Inr (withMedia messagePayload url caption))) of
       Inl urlError \<Rightarrow> Inl (Error (js ''Invalid media URL: '' @ message_of urlError))
     | Inr p \<Rightarrow> Inr p)"

definition batchPayload :: "network \<Rightarrow> batch_message \<Rightarrow> error + payload" where
  "batchPayload net msg =
    (let messagePayload = basePayload (msg_phoneNumber msg) (msg_media msg) in
     case msg_media msg of
       None \<Rightarrow> Inr (messagePayload\<lparr>p_text_body := Some (msg_message msg)\<rparr>)
     | Some md \<Rightarrow>
         (case media_url md of
            None \<Rightarrow> Inr (messagePayload\<lparr>p_text_body := Some (msg_message msg)\<rparr>)
          | Some url \<Rightarrow>
              if url = [] then Inr (messagePayload\<lparr>p_text_body := Some (msg_message msg)\<rparr>)
              else batchMediaPayload net messagePayload url (msg_message msg)))"

text \<open>The \<open>try\<close> block of one message: the provider's id, or the error thrown.\<close>

definition trySend :: "network \<Rightarrow> whatsapp_config \<Rightarrow> batch_message \<Rightarrow> error + jsstring option" where
  "trySend net config msg =
    (case batchPayload net msg of
       Inl e \<Rightarrow> Inl e
     | Inr messagePayload \<Rightarrow>
         (case fetchMessages net (phoneNumberId config) (accessToken config) messagePayload of
            SendThrows e \<Rightarrow> Inl e
          | SendNotOk errorMessage statusText \<Rightarrow> Inl (Error (orElse errorMessage (js ''WhatsApp API error'')))
          | SendOk messageId \<Rightarrow> Inr messageId))"

text \<open>One message of the batch: the log row is inserted in the \<open>try\<close> and in the \<open>catch\<close>.\<close>

definition sendOne :: "network \<Rightarrow> whatsapp_config \<Rightarrow> nat \<Rightarrow> store \<Rightarrow> batch_message \<Rightarrow> MessageResult \<times> store" where
  "sendOne net config now db msg =
    (case trySend net config msg of
       Inr messageId \<Rightarrow>
         (\<lparr>res_status = status_success, res_phoneNumber = msg_phoneNumber msg,
           res_message = msg_message msg, res_timestamp = now,
           res_messageId = messageId, res_error = None\<rparr>,
          insert_log db (sentLog (msg_phoneNumber msg) (take 100 (msg_message msg)) messageId now))
     | Inl e \<Rightarrow>
         (\<lparr>res_status = status_error, res_phoneNumber = msg_phoneNumber msg,
           res_message = msg_message msg, res_timestamp = now,
           res_messageId = None, res_error = Some (message_of e)\<rparr>,
          insert_log db (errorLog (msg_phoneNumber msg) (take 100 (msg_message msg)) (message_of e) now)))"





section \<open>Status updates\<close>

text \<open>
  \<open>from('message_logs').update({ status, updated_at }).eq('message_id', id)\<close>: every row
  with that id is changed; no such row is no error.
\<close>

definition update_status :: "store \<Rightarrow> nat \<Rightarrow> jsstring \<Rightarrow> jsstring \<Rightarrow> error option \<times> store" where
  "update_status db now messageId status =
    (case store_fault db of
       Some e \<Rightarrow> (Some e, db)
     | None \<Rightarrow>
         (None,
          db\<lparr>message_logs :=
               map (\<lambda>r. if log_message_id r = Some messageId
                         then r\<lparr>log_status := status, log_updated_at := Some now\<rparr> else r)
                   (message_logs db)\<rparr>))"

record status_update =
  su_messageId :: "jsstring option"
  su_status :: "jsstring option"

record status_reply =
  reply_success :: bool
  reply_message :: "jsstring option"
  reply_error :: "jsstring option"

text \<open>\<open>processStatusUpdate\<close> of src/api/whatsapp-webhook.ts.\<close>

definition processStatusUpdate :: "store \<Rightarrow> nat \<Rightarrow> status_update \<Rightarrow> status_reply \<times> store" where
  "processStatusUpdate db now data =
    (case (su_messageId data, su_status data) of
       (Some messageId, Some status) \<Rightarrow>
         if messageId = [] \<or> status = []
         then (\<lparr>reply_success = False, reply_message = None,
                 reply_error = Some (js ''Missing required fields: messageId, status'')\<rparr>, db)
         else
           (case update_status db now messageId status of
              (Some updateError, db1) \<Rightarrow>
                (\<lparr>reply_success = False, reply_message = None,
                   reply_error = Some (message_of updateError)\<rparr>, db1)
            | (None, db1) \<Rightarrow>
                (\<lparr>reply_success = True, reply_message = Some (js ''Status updated to '' @ status),
                   reply_error = None\<rparr>, db1))
     | _ \<Rightarrow>
         (\<lparr>reply_success = False, reply_message = None,
            reply_error = Some (js ''Missing required fields: messageId, status'')\<rparr>, db))"

record deno_env =
  SUPABASE_URL :: "jsstring option"
  SUPABASE_ANON_KEY :: "jsstring option"

record http_response =
  http_status :: nat
  body_success :: "bool option"
  body_message :: "jsstring option"
  body_response :: "jsstring option"
  body_chatbotType :: "chatbotType option"
  body_error :: "jsstring option"

definition errorResponse :: "nat \<Rightarrow> jsstring \<Rightarrow> http_response" where
  "errorResponse code msg =
    \<lparr>http_status = code, body_success = None, body_message = None, body_response = None,
     body_chatbotType = None, body_error = Some msg\<rparr>"

text \<open>
  The \<open>status_update\<close> branch of the handler of src/unnamed/part_002, entered when the
  body's \<open>type\<close> is \<open>'status_update'\<close>. The handler does not test \<open>messageId\<close> and
  \<open>status\<close>; the model takes them as strings. The \<open>details\<close> field of an error body (the
  stack) is left out.
\<close>

definition statusUpdateBranch :: "deno_env \<Rightarrow> store \<Rightarrow> nat \<Rightarrow> jsstring \<Rightarrow> jsstring \<Rightarrow> http_response \<times> store" where
  "statusUpdateBranch env db now messageId status =
    (if \<not> truthy (SUPABASE_URL env) \<or> \<not> truthy (SUPABASE_ANON_KEY env)
     then (errorResponse 500 (js ''Missing Supabase environment variables''), db)
     else
       (case update_status db now messageId status of
          (Some updateError, db1) \<Rightarrow>
            (errorResponse 500 (js ''Failed to update message status: '' @ message_of updateError), db1)
        | (None, db1) \<Rightarrow>
            (\<lparr>http_status = 200, body_success = Some True,
               body_message = Some (js ''Status updated to '' @ status), body_response = None,
               body_chatbotType = None, body_error = None\<rparr>, db1)))"

section \<open>Responder\<close>

subsection \<open>\<open>processCustomerMessage\<close> (lib/education, second part of src/api/whatsapp-webhook.ts)\<close>

datatype sender = user | bot

record Message =
  m_phoneNumber :: jsstring
  m_content :: jsstring
  m_sender :: sender
  m_imageUrl :: "jsstring option"














subsection \<open>The handler of supabase/functions/webhook-handler/index.ts\<close>









subsection \<open>The reply prepared by supabase/functions/api-chatbot/index.ts\<close>

text \<open>
  \<open>/<script[^>]*>.*?<\/script>/gi\<close>. Without the \<open>u\<close> flag a letter of the pattern matches
  itself and its ASCII capital only; \<open>.\<close> matches no line terminator; the lazy \<open>.*?\<close>
  stops at the first closing tag.
\<close>

definition ciEq :: "jschar \<Rightarrow> jschar \<Rightarrow> bool" where
  "ciEq p c = (c = p \<or> (0x61 \<le> p \<and> p \<le> 0x7A \<and> c = p - 0x20))"

definition ciPrefix :: "jsstring \<Rightarrow> jsstring \<Rightarrow> bool" where
  "ciPrefix pat s = (length pat \<le> length s \<and> list_all2 ciEq pat (take (length pat) s))"

definition lineTerminator :: "jschar \<Rightarrow> bool" where
  "lineTerminator c = (c = 0x0A \<or> c = 0x0D \<or> c = 0x2028 \<or> c = 0x2029)"

text \<open>What is left behind the first closing tag reachable without a line terminator.\<close>

fun afterScriptEnd :: "jsstring \<Rightarrow> jsstring option" where
  "afterScriptEnd [] = None"
| "afterScriptEnd (c # cs) =
     (if ciPrefix (js ''</script>'') (c # cs) then Some (drop 9 (c # cs))
      else if lineTerminator c then None
      else afterScriptEnd cs)"

text \<open>What is left behind a script element that starts at the head of the string.\<close>

definition afterScript :: "jsstring \<Rightarrow> jsstring option" where
  "afterScript s =
    (if ciPrefix (js ''<script'') s \<and> 0x3E \<in> set (drop 7 s)
     then afterScriptEnd (drop 1 (dropWhile (\<lambda>x. x \<noteq> 0x3E) (drop 7 s)))
     else None)"

function removeScripts :: "jsstring \<Rightarrow> jsstring" where
  "removeScripts [] = []"
| "removeScripts (c # cs) =
     (case afterScript (c # cs) of
        Some rest \<Rightarrow> removeScripts rest
      | None \<Rightarrow> c # removeScripts cs)"
  by pat_completeness auto
termination
proof (relation "measure length")
  show "wf (measure length)" by simp
next
  fix c :: jschar and cs rest :: jsstring
  assume a: "afterScript (c # cs) = Some rest"
  have e: "afterScriptEnd t = Some r \<Longrightarrow> length r \<le> length t" for t r
    by (induction t) (auto split: if_splits)
  from a have "afterScriptEnd (drop 1 (dropWhile (\<lambda>x. x \<noteq> 0x3E) (drop 7 (c # cs)))) = Some rest"
    unfolding afterScript_def by (simp split: if_splits)
  then have "length rest \<le> length (drop 1 (dropWhile (\<lambda>x. x \<noteq> 0x3E) (drop 7 (c # cs))))"
    by (rule e)
  also have "\<dots> \<le> length (drop 7 (c # cs))"
    using length_dropWhile_le [of "\<lambda>x. x \<noteq> 0x3E" "drop 7 (c # cs)"] by simp
  also have "\<dots> < length (c # cs)" by simp
  finally show "(rest, c # cs) \<in> measure length" by simp
next
  fix c :: jschar and cs :: jsstring
  show "(cs, c # cs) \<in> measure length" by simp
qed

definition apiChatbotFallback :: jsstring where
  "apiChatbotFallback = js ''Je suis d'' @ 0xE9 # js ''sol'' @ 0xE9 # js '', je n'' @ 0x27 # js ''ai pas pu g''
     @ 0xE9 # js ''n'' @ 0xE9 # js ''rer une r'' @ 0xE9 # js ''ponse appropri'' @ 0xE9
     # js ''e. Un agent vous contactera bient'' @ 0xF4 # js ''t.''"

text \<open>
  "Validate and sanitize response" (lines 278 to 289): the value of the local variable
  \<open>sanitizedResponse\<close> after the cut at 4000 and the removal of scripts and tags.
\<close>

definition sanitizeResponse :: "jsstring \<Rightarrow> jsstring" where
  "sanitizeResponse response =
    (let sanitizedResponse = (if length response > 4000 then take 3997 response @ js ''...'' else response)
     in trim (removeTags (removeScripts sanitizedResponse)))"

text \<open>
  The handler from the completion on (lines 275 to 353). After the text is prepared the
  handler computes the response time from \<open>startTime\<close>, a name that nothing in the file
  declares: reading it throws a \<open>ReferenceError\<close>. The handler's \<open>catch\<close> then reads
  \<open>requestData\<close>, which \<open>let\<close> binds inside the \<open>try\<close> block and which is not in scope
  in the \<open>catch\<close>: a second \<open>ReferenceError\<close>, with which the handler rejects. The rest
  of the \<open>try\<close> block, the success body with the prepared text, is never reached.
\<close>

definition startTime :: "error + nat" where
  "startTime = Inl (Error (js ''startTime is not defined''))"

definition apiChatbotCatch :: "error \<Rightarrow> error + jsstring" where
  "apiChatbotCatch e = Inl (Error (js ''requestData is not defined''))"

definition apiChatbotTail :: "jsstring option \<Rightarrow> error + jsstring" where
  "apiChatbotTail content =
    (let sanitizedResponse = sanitizeResponse (orElse content apiChatbotFallback) in
     case startTime of
       Inl e \<Rightarrow> apiChatbotCatch e
     | Inr t \<Rightarrow> Inr sanitizedResponse)"

section \<open>Example data\<close>

text \<open>Concrete stores, networks, messages and environments at which the theorems are instantiated.\<close>

definition cfg1 :: config_row where
  "cfg1 = \<lparr>cfg_user_id = js ''u1'', cfg_is_active = True, cfg_access_token = Some (js ''EAA1''),
     cfg_phone_number_id = Some (js ''1001''), cfg_whatsapp_business_account_id = None,
     cfg_updated_at = 10\<rparr>"

definition cfg2 :: config_row where
  "cfg2 = \<lparr>cfg_user_id = js ''u2'', cfg_is_active = True, cfg_access_token = Some (js ''EAA2''),
     cfg_phone_number_id = Some (js ''1002''), cfg_whatsapp_business_account_id = None,
     cfg_updated_at = 20\<rparr>"

text \<open>An active row without access token, newer than the others.\<close>

definition cfg3 :: config_row where
  "cfg3 = \<lparr>cfg_user_id = js ''u3'', cfg_is_active = True, cfg_access_token = None,
     cfg_phone_number_id = Some (js ''1003''), cfg_whatsapp_business_account_id = None,
     cfg_updated_at = 30\<rparr>"

text \<open>A second active row of the first user, older than the first.\<close>

definition cfg1b :: config_row where
  "cfg1b = \<lparr>cfg_user_id = js ''u1'', cfg_is_active = True, cfg_access_token = Some (js ''EAA1b''),
     cfg_phone_number_id = Some (js ''1011''), cfg_whatsapp_business_account_id = None,
     cfg_updated_at = 5\<rparr>"

definition storeNewestWithoutToken :: store where
  "storeNewestWithoutToken =
    \<lparr>user_whatsapp_config = [cfg1, cfg2, cfg3], message_logs = [], store_fault = None\<rparr>"

definition storeTwoRows :: store where
  "storeTwoRows =
    \<lparr>user_whatsapp_config = [cfg1, cfg1b, cfg2], message_logs = [], store_fault = None\<rparr>"

definition log1 :: message_log where
  "log1 = sentLog (js ''+242055123456'') (js ''Hello'') (Some (js ''wamid.A'')) 5"

definition store0 :: store where
  "store0 = \<lparr>user_whatsapp_config = [cfg1, cfg2], message_logs = [log1], store_fault = None\<rparr>"

definition emptyStore :: store where
  "emptyStore = \<lparr>user_whatsapp_config = [], message_logs = [], store_fault = None\<rparr>"

text \<open>A network where every address is well formed and answers, and the provider accepts.\<close>

definition netOk :: network where
  "netOk = \<lparr>newURL = (\<lambda>u. None), fetchHead = (\<lambda>u. HeadResponse True 200 (js ''OK'')),
     fetchMessages = (\<lambda>phoneNumberId accessToken p. SendOk (Some (js ''wamid.B''))),
     regExpReplace = (\<lambda>pat v s. Inr s)\<rparr>"

text \<open>The same, but the media address answers 404.\<close>

definition netMediaDown :: network where
  "netMediaDown = netOk\<lparr>fetchHead := (\<lambda>u. HeadResponse False 404 (js ''Not Found''))\<rparr>"

definition picture :: media where
  "picture = \<lparr>media_type = image, media_url = Some (js ''https://example.com/a.png'')\<rparr>"







section \<open>Properties of the phone number normalizer\<close>

lemma js_plus: "js ''+'' = [0x2B]"
  by (simp add: js_def)

lemma startsWith_plus: "startsWith s (js ''+'') \<longleftrightarrow> (\<exists>t. s = 0x2B # t)"
  by (cases s) (auto simp: startsWith_def js_plus)

lemma countryCodeMap_all:
  "list_all (\<lambda>(code, pre). hd pre = 0x2B \<and> pre \<noteq> [] \<and> list_all phoneChar pre) countryCodeMap"
  by (simp add: countryCodeMap_def js_def phoneChar_def isDigit_def)

lemma countryCodeMap_prefixes:
  assumes "(code, pre) \<in> set countryCodeMap"
  shows "(\<exists>t. pre = 0x2B # t) \<and> (\<forall>c\<in>set pre. phoneChar c)"
proof -
  from countryCodeMap_all assms
  have "hd pre = 0x2B \<and> pre \<noteq> [] \<and> list_all phoneChar pre"
    unfolding list_all_iff by blast
  then show ?thesis by (cases pre) (auto simp: list_all_iff)
qed

lemma default_prefix: "\<exists>t. js ''+242'' = 0x2B # t" "\<forall>c\<in>set (js ''+242''). phoneChar c"
  by (simp_all add: js_def phoneChar_def isDigit_def)

lemma find_Some_mem: "find P xs = Some x \<Longrightarrow> x \<in> set xs"
  by (induction xs) (auto split: if_splits)

lemma phone_shape_append:
  assumes "\<exists>t. pre = 0x2B # t" "\<forall>c\<in>set pre. phoneChar c" "\<forall>c\<in>set rest. phoneChar c"
  shows "(\<exists>t. pre @ rest = 0x2B # t) \<and> (\<forall>c\<in>set (pre @ rest). phoneChar c)"
  using assms by auto

lemma normalizePhoneNumber_shape:
  assumes "s \<noteq> []"
  shows "(\<exists>t. normalizePhoneNumber s = 0x2B # t) \<and> (\<forall>c\<in>set (normalizePhoneNumber s). phoneChar c)"
proof -
  define cleaned where "cleaned = filter phoneChar s"
  have cl: "\<forall>c\<in>set cleaned. phoneChar c" by (simp add: cleaned_def)
  have cld: "\<forall>c\<in>set (drop n cleaned). phoneChar c" for n
    using cl by (auto dest: in_set_dropD)
  show ?thesis
  proof (cases "startsWith cleaned (js ''+'')")
    case True
    then have "normalizePhoneNumber s = cleaned"
      using assms by (simp add: normalizePhoneNumber_def cleaned_def)
    then show ?thesis using True cl by (simp add: startsWith_plus)
  next
    case False
    show ?thesis
    proof (cases "find (\<lambda>(code, pre). startsWith cleaned code) countryCodeMap")
      case None
      show ?thesis
      proof (cases "startsWith cleaned (js ''0'')")
        case True
        have "normalizePhoneNumber s = js ''+242'' @ drop 1 cleaned"
          using assms False None True by (simp add: normalizePhoneNumber_def cleaned_def)
        then show ?thesis using phone_shape_append [OF default_prefix cld] by simp
      next
        case nz: False
        have "normalizePhoneNumber s = js ''+242'' @ cleaned"
          using assms False None nz by (simp add: normalizePhoneNumber_def cleaned_def)
        then show ?thesis using phone_shape_append [OF default_prefix cl] by simp
      qed
    next
      case (Some a)
      obtain code pre where a: "a = (code, pre)" by (cases a)
      from Some a have "(code, pre) \<in> set countryCodeMap"
        by (auto dest: find_Some_mem)
      from countryCodeMap_prefixes [OF this]
      have p: "\<exists>t. pre = 0x2B # t" "\<forall>c\<in>set pre. phoneChar c" by blast+
      have "normalizePhoneNumber s = pre @ drop (length code) cleaned"
        using assms False Some a by (simp add: normalizePhoneNumber_def cleaned_def)
      then show ?thesis using phone_shape_append [OF p cld] by simp
    qed
  qed
qed

lemma normalizePhoneNumber_fixed:
  assumes "s = 0x2B # t" "\<forall>c\<in>set s. phoneChar c"
  shows "normalizePhoneNumber s = s"
proof -
  have "filter phoneChar s = s" using assms(2) by (simp add: filter_id_conv)
  then show ?thesis using assms(1)
    by (simp add: normalizePhoneNumber_def startsWith_plus)
qed

text \<open>
  C10: the normalizer is idempotent. Its output is the empty string (for the empty string
  only) or begins with a plus sign and holds nothing but digits and plus signs, and such a
  string is what the normalizer gives back for it.
\<close>

theorem normalizePhoneNumber_idempotent:
  "normalizePhoneNumber (normalizePhoneNumber s) = normalizePhoneNumber s
   \<and> (normalizePhoneNumber s = [] \<or> (\<exists>t. normalizePhoneNumber s = 0x2B # t))
   \<and> normalizePhoneNumber [] = []"
proof (cases "s = []")
  case True
  then show ?thesis by (simp add: normalizePhoneNumber_def)
next
  case False
  from normalizePhoneNumber_shape [OF False]
  obtain t where t: "normalizePhoneNumber s = 0x2B # t" "\<forall>c\<in>set (normalizePhoneNumber s). phoneChar c"
    by blast
  then have "normalizePhoneNumber (normalizePhoneNumber s) = normalizePhoneNumber s"
    by (rule normalizePhoneNumber_fixed)
  with t(1) show ?thesis by (simp add: normalizePhoneNumber_def)
qed

section \<open>Properties of the sanitizer\<close>

lemma removeTags_plain: "0x3C \<notin> set s \<Longrightarrow> removeTags s = s"
  by (induction s) auto

lemma removeAngleBrackets_plain: "0x3C \<notin> set s \<Longrightarrow> 0x3E \<notin> set s \<Longrightarrow> removeAngleBrackets s = s"
  unfolding removeAngleBrackets_def by (induction s) auto

lemma replaceAll_plain: "p \<notin> set s \<Longrightarrow> replaceAll (p # ps) rep s = s"
  by (induction s) auto

lemma decodeEntities_plain:
  assumes "0x26 \<notin> set s"
  shows "decodeEntities s = s"
proof -
  have r: "replaceAll (0x26 # ps) rep s = s" for ps rep
    using assms by (rule replaceAll_plain)
  show ?thesis
    by (simp add: decodeEntities_def htmlEntities_def js_def r)
qed

lemma removeEntities_plain: "0x26 \<notin> set s \<Longrightarrow> removeEntities s = s"
  by (induction s) auto

lemma collapseWhitespace_plain: "\<forall>c\<in>set s. \<not> isSpace c \<Longrightarrow> collapseWhitespace s = s"
  by (induction s) auto

lemma dropWhile_none: "\<forall>c\<in>set s. \<not> P c \<Longrightarrow> dropWhile P s = s"
  by (cases s) auto

lemma trim_plain: "\<forall>c\<in>set s. \<not> isSpace c \<Longrightarrow> trim s = s"
  by (simp add: trim_def dropWhile_none)

lemma cleanMessage_plain:
  assumes "\<forall>c\<in>set s. c \<noteq> 0x3C \<and> c \<noteq> 0x3E \<and> c \<noteq> 0x26 \<and> \<not> isSpace c"
  shows "cleanMessage s = s"
proof -
  have a: "0x3C \<notin> set s" "0x3E \<notin> set s" "0x26 \<notin> set s" "\<forall>c\<in>set s. \<not> isSpace c"
    using assms by auto
  show ?thesis
    by (simp add: cleanMessage_def removeTags_plain removeAngleBrackets_plain decodeEntities_plain
        removeEntities_plain collapseWhitespace_plain trim_plain a)
qed

lemma js_dots: "length (js ''...'') = 3"
  by (simp add: js_def)

lemma sanitize_long:
  assumes "4096 < length (cleanMessage s)"
  shows "sanitizeWhatsAppMessage s = Inr (take 4093 (cleanMessage s) @ js ''...'')"
    and "length (take 4093 (cleanMessage s) @ js ''...'') = 4096"
proof -
  have "s \<noteq> []" using assms
    by (auto simp: cleanMessage_def removeAngleBrackets_def decodeEntities_def htmlEntities_def trim_def)
  moreover have "cleanMessage s \<noteq> []" using assms by auto
  ultimately show "sanitizeWhatsAppMessage s = Inr (take 4093 (cleanMessage s) @ js ''...'')"
    using assms by (simp add: sanitizeWhatsAppMessage_def Let_def)
  show "length (take 4093 (cleanMessage s) @ js ''...'') = 4096"
    using assms by (simp add: js_dots)
qed

lemma sanitize_short:
  assumes "cleanMessage s \<noteq> []" "length (cleanMessage s) \<le> 4096"
  shows "sanitizeWhatsAppMessage s = Inr (cleanMessage s)"
proof -
  have "s \<noteq> []" using assms(1)
    by (auto simp: cleanMessage_def removeAngleBrackets_def decodeEntities_def htmlEntities_def trim_def)
  then show ?thesis using assms by (simp add: sanitizeWhatsAppMessage_def Let_def)
qed

text \<open>
  C2: a cleaned form longer than 4096 code units is cut to its first 4093 with the three
  dots appended, 4096 code units in all; so 5000 characters that are neither angle
  brackets, ampersands nor white space come back as their first 4093 and the dots; a
  cleaned form of at most 4096 code units (not empty) is returned whole.
\<close>

theorem sanitize_truncation:
  "(4096 < length (cleanMessage s) \<longrightarrow>
      sanitizeWhatsAppMessage s = Inr (take 4093 (cleanMessage s) @ js ''...'')
      \<and> length (take 4093 (cleanMessage s) @ js ''...'') = 4096)
   \<and> (length s = 5000 \<and> (\<forall>c\<in>set s. c \<noteq> 0x3C \<and> c \<noteq> 0x3E \<and> c \<noteq> 0x26 \<and> \<not> isSpace c) \<longrightarrow>
      sanitizeWhatsAppMessage s = Inr (take 4093 s @ js ''...'')
      \<and> length (take 4093 s @ js ''...'') = 4096)
   \<and> (cleanMessage s \<noteq> [] \<and> length (cleanMessage s) \<le> 4096 \<longrightarrow>
      sanitizeWhatsAppMessage s = Inr (cleanMessage s))"
proof (intro conjI impI)
  assume "4096 < length (cleanMessage s)"
  then show "sanitizeWhatsAppMessage s = Inr (take 4093 (cleanMessage s) @ js ''...'')"
    and "length (take 4093 (cleanMessage s) @ js ''...'') = 4096"
    by (rule sanitize_long)+
next
  assume a: "length s = 5000 \<and> (\<forall>c\<in>set s. c \<noteq> 0x3C \<and> c \<noteq> 0x3E \<and> c \<noteq> 0x26 \<and> \<not> isSpace c)"
  then have c: "cleanMessage s = s" by (simp add: cleanMessage_plain)
  with a have l: "4096 < length (cleanMessage s)" by simp
  from sanitize_long [OF l] c
  show "sanitizeWhatsAppMessage s = Inr (take 4093 s @ js ''...'')"
    and "length (take 4093 s @ js ''...'') = 4096" by simp_all
next
  assume "cleanMessage s \<noteq> [] \<and> length (cleanMessage s) \<le> 4096"
  then show "sanitizeWhatsAppMessage s = Inr (cleanMessage s)"
    by (simp add: sanitize_short)
qed

lemma cleanMessage_Hello: "cleanMessage (js ''Hello'') = js ''Hello''"
  by (rule cleanMessage_plain) (simp add: js_def isSpace_def)

theorem sanitize_truncation_witness:
  "length (replicate 5000 (0x61 :: jschar)) = 5000
   \<and> sanitizeWhatsAppMessage (replicate 5000 0x61) = Inr (replicate 4093 0x61 @ js ''...'')
   \<and> 4096 < length (cleanMessage (replicate 5000 0x61))
   \<and> length (replicate 4093 (0x61 :: jschar) @ js ''...'') = 4096
   \<and> cleanMessage (js ''Hello'') \<noteq> [] \<and> length (cleanMessage (js ''Hello'')) \<le> 4096
   \<and> sanitizeWhatsAppMessage (js ''Hello'') = Inr (js ''Hello'')"
proof -
  have p: "\<forall>c\<in>set (replicate 5000 (0x61 :: jschar)). c \<noteq> 0x3C \<and> c \<noteq> 0x3E \<and> c \<noteq> 0x26 \<and> \<not> isSpace c"
    by (simp add: isSpace_def)
  have c: "cleanMessage (replicate 5000 0x61) = replicate 5000 0x61"
    using p by (rule cleanMessage_plain)
  have h: "cleanMessage (js ''Hello'') \<noteq> [] \<and> length (cleanMessage (js ''Hello'')) \<le> 4096"
    unfolding cleanMessage_Hello by (simp add: js_def)
  show ?thesis
    using sanitize_truncation [of "replicate 5000 0x61"] sanitize_truncation [of "js ''Hello''"] p c h
    by (simp add: cleanMessage_Hello)
qed

text \<open>
  C3, as stated, fails at the empty string: its cleaned form is empty, yet the guard at
  the top of the sanitizer returns the empty string and nothing is thrown.
\<close>

theorem sanitize_empty_counterexample:
  "cleanMessage (js '''') = js '''' \<and> sanitizeWhatsAppMessage (js '''') = Inr (js '''')"
  by (simp add: sanitizeWhatsAppMessage_def cleanMessage_def js_def removeAngleBrackets_def
      decodeEntities_def htmlEntities_def trim_def)

text \<open>
  C3, amended: the sanitizer throws exactly when its input is not empty and the cleaning
  steps leave nothing, and then the error is "Message is empty after sanitization"; a
  result returned for an input that is not empty is not empty; the empty string is
  returned as it is.
\<close>

theorem sanitize_raises_iff:
  "(sanitizeWhatsAppMessage s = Inl emptyAfterSanitization \<longleftrightarrow> s \<noteq> [] \<and> cleanMessage s = [])
   \<and> (\<forall>e. sanitizeWhatsAppMessage s = Inl e \<longrightarrow> e = emptyAfterSanitization)
   \<and> (\<forall>r. s \<noteq> [] \<and> sanitizeWhatsAppMessage s = Inr r \<longrightarrow> r \<noteq> [])
   \<and> sanitizeWhatsAppMessage [] = Inr []"
  by (auto simp: sanitizeWhatsAppMessage_def Let_def js_def)

theorem sanitize_raises_iff_witness:
  "js ''<b></b>'' \<noteq> [] \<and> cleanMessage (js ''<b></b>'') = []
   \<and> sanitizeWhatsAppMessage (js ''<b></b>'') = Inl emptyAfterSanitization
   \<and> js ''Hi'' \<noteq> [] \<and> sanitizeWhatsAppMessage (js ''Hi'') = Inr (js ''Hi'') \<and> js ''Hi'' \<noteq> []"
proof -
  have c: "cleanMessage (js ''<b></b>'') = []"
    by (simp add: cleanMessage_def js_def removeAngleBrackets_def decodeEntities_def htmlEntities_def
        trim_def)
  have h: "sanitizeWhatsAppMessage (js ''Hi'') = Inr (js ''Hi'')"
    by (simp add: sanitizeWhatsAppMessage_def cleanMessage_def js_def removeAngleBrackets_def
        decodeEntities_def htmlEntities_def trim_def isSpace_def)
  show ?thesis
    using sanitize_raises_iff [of "js ''<b></b>''"] sanitize_raises_iff [of "js ''Hi''"] c h
    by (simp add: js_def)
qed

section \<open>Properties of the classifier\<close>

lemma includes_str_iff: "includes_str s k \<longleftrightarrow> (\<exists>p q. s = p @ k @ q)"
proof (induction s)
  case Nil
  then show ?case by simp
next
  case (Cons c cs)
  show ?case
  proof
    assume "includes_str (c # cs) k"
    then consider "prefix k (c # cs)" | "includes_str cs k" by auto
    then show "\<exists>p q. c # cs = p @ k @ q"
    proof cases
      case 1
      then obtain q where "c # cs = k @ q" by (auto simp: prefix_def)
      then have "c # cs = [] @ k @ q" by simp
      then show ?thesis by blast
    next
      case 2
      with Cons.IH obtain p q where "cs = p @ k @ q" by blast
      then have "c # cs = (c # p) @ k @ q" by simp
      then show ?thesis by blast
    qed
  next
    assume "\<exists>p q. c # cs = p @ k @ q"
    then obtain p q where e: "c # cs = p @ k @ q" by blast
    show "includes_str (c # cs) k"
    proof (cases p)
      case Nil
      with e have "prefix k (c # cs)" by (simp add: prefix_def)
      then show ?thesis by simp
    next
      case (Cons a p')
      with e have "cs = p' @ k @ q" by simp
      with Cons.IH have "includes_str cs k" by blast
      then show ?thesis by simp
    qed
  qed
qed

text \<open>
  C4: the classifier is a function of the text (and of the platform's lowercasing): it
  answers education when an education keyword occurs in the lowercased text, else quiz
  when a quiz keyword occurs, else client. A text with keywords of both lists is
  therefore education, and one with none is client.
\<close>

theorem determineChatbotType_order:
  "determineChatbotType toLowerCase message =
     (if \<exists>k\<in>set educationKeywords. \<exists>p q. toLowerCase message = p @ k @ q then Education
      else if \<exists>k\<in>set quizKeywords. \<exists>p q. toLowerCase message = p @ k @ q then Quiz
      else Client)"
  by (simp add: determineChatbotType_def Let_def list_ex_iff includes_str_iff)

theorem determineChatbotType_order_witness:
  "determineChatbotType toLowerCaseAscii (js ''quiz about what I learn'') = Education
   \<and> determineChatbotType toLowerCaseAscii (js ''I want to learn algebra'') = Education
   \<and> determineChatbotType toLowerCaseAscii (js ''let's play a quiz game'') = Quiz
   \<and> determineChatbotType toLowerCaseAscii (js ''my bill is wrong'') = Client"
proof -
  have e1: "list_ex (includes_str (toLowerCaseAscii (js ''quiz about what I learn''))) educationKeywords"
    by (simp add: toLowerCaseAscii_def js_def educationKeywords_def)
  have e2: "list_ex (includes_str (toLowerCaseAscii (js ''I want to learn algebra''))) educationKeywords"
    by (simp add: toLowerCaseAscii_def js_def educationKeywords_def)
  have e3: "\<not> list_ex (includes_str (toLowerCaseAscii (js ''let's play a quiz game''))) educationKeywords"
    by (simp add: toLowerCaseAscii_def js_def educationKeywords_def)
  have q3: "list_ex (includes_str (toLowerCaseAscii (js ''let's play a quiz game''))) quizKeywords"
    by (simp add: toLowerCaseAscii_def js_def quizKeywords_def)
  have e4: "\<not> list_ex (includes_str (toLowerCaseAscii (js ''my bill is wrong''))) educationKeywords"
    by (simp add: toLowerCaseAscii_def js_def educationKeywords_def)
  have q4: "\<not> list_ex (includes_str (toLowerCaseAscii (js ''my bill is wrong''))) quizKeywords"
    by (simp add: toLowerCaseAscii_def js_def quizKeywords_def)
  show ?thesis
    using determineChatbotType_order [of toLowerCaseAscii "js ''quiz about what I learn''"]
      determineChatbotType_order [of toLowerCaseAscii "js ''I want to learn algebra''"]
      determineChatbotType_order [of toLowerCaseAscii "js ''let's play a quiz game''"]
      determineChatbotType_order [of toLowerCaseAscii "js ''my bill is wrong''"]
      e1 e2 e3 q3 e4 q4
    unfolding list_ex_iff includes_str_iff by presburger
qed

section \<open>Properties of the configuration resolution\<close>

lemma mostRecent_cases:
  "mostRecent rs = [] \<and> rs = [] \<or>
   (\<exists>m. mostRecent rs = [m] \<and> m \<in> set rs \<and> (\<forall>r\<in>set rs. cfg_updated_at r \<le> cfg_updated_at m))"
proof (induction rs)
  case Nil
  then show ?case by simp
next
  case (Cons r rs)
  then show ?case
    by (cases "mostRecent rs") (auto split: if_splits)
qed

lemma maybeSingle_one: "maybeSingle None [r] = Inr (Some r)"
  by (simp add: maybeSingle_def)

lemma maybeSingle_none: "maybeSingle None [] = Inr None"
  by (simp add: maybeSingle_def)

lemma userScopedConfig_Some:
  assumes "userScopedConfig db userId = Some c"
  shows "\<exists>u r. userId = Some u \<and> u \<noteq> [] \<and> store_fault db = None
           \<and> filter (\<lambda>r. cfg_user_id r = u \<and> cfg_is_active r) (user_whatsapp_config db) = [r]
           \<and> has_credentials r \<and> c = config_of r user_config"
proof -
  from assms obtain u where u: "userId = Some u" "u \<noteq> []"
    by (auto simp: userScopedConfig_def split: option.splits if_splits)
  let ?rows = "filter (\<lambda>r. cfg_user_id r = u \<and> cfg_is_active r) (user_whatsapp_config db)"
  from assms u obtain r where r: "maybeSingle (store_fault db) ?rows = Inr (Some r)"
    "has_credentials r" "c = config_of r user_config"
    by (auto simp: userScopedConfig_def split: sum.splits option.splits if_splits)
  from r(1) have "store_fault db = None \<and> ?rows = [r]"
    by (auto simp: maybeSingle_def split: option.splits list.splits)
  with u r show ?thesis by blast
qed

lemma userScopedConfig_one:
  assumes "userId = Some u" "u \<noteq> []" "store_fault db = None"
    "filter (\<lambda>r. cfg_user_id r = u \<and> cfg_is_active r) (user_whatsapp_config db) = [r]"
    "has_credentials r"
  shows "userScopedConfig db userId = Some (config_of r user_config)"
  using assms by (simp add: userScopedConfig_def maybeSingle_one)

lemma getWhatsAppConfig_fallback:
  assumes "userScopedConfig db userId = None"
  shows "getWhatsAppConfig db userId =
           (case maybeSingle (store_fault db) (mostRecent (filter cfg_is_active (user_whatsapp_config db))) of
              Inr (Some m) \<Rightarrow> if has_credentials m then Inr (config_of m fallback_user_config) else Inl noActiveConfig
            | _ \<Rightarrow> Inl noActiveConfig)"
  using assms by (simp add: getWhatsAppConfig_def)

text \<open>
  C9, amended: the three steps of the resolution. (1) With a user id, a reachable store
  and exactly one active row of that user, which has both credentials, that row's
  configuration is returned. (2) Otherwise, if there is an active row at all, the answer is decided by an
  active row of greatest \<open>updated_at\<close>: it is returned as the fallback when it has
  both credentials, and the operation fails when it has not. (3) With no active row the
  operation fails. Whatever is returned comes from an active row with both credentials,
  and the only failure is the no-active-configuration error.
\<close>

theorem getWhatsAppConfig_precedence:
  "(\<forall>u r. userId = Some u \<and> u \<noteq> [] \<and> store_fault db = None
       \<and> filter (\<lambda>r. cfg_user_id r = u \<and> cfg_is_active r) (user_whatsapp_config db) = [r]
       \<and> has_credentials r
     \<longrightarrow> getWhatsAppConfig db userId = Inr (config_of r user_config))
   \<and> (store_fault db = None
       \<and> \<not> (\<exists>u r. userId = Some u \<and> u \<noteq> []
              \<and> filter (\<lambda>r. cfg_user_id r = u \<and> cfg_is_active r) (user_whatsapp_config db) = [r]
              \<and> has_credentials r)
       \<and> (\<exists>r\<in>set (user_whatsapp_config db). cfg_is_active r)
     \<longrightarrow> (\<exists>m\<in>set (user_whatsapp_config db). cfg_is_active m
           \<and> (\<forall>r\<in>set (user_whatsapp_config db). cfg_is_active r \<longrightarrow> cfg_updated_at r \<le> cfg_updated_at m)
           \<and> getWhatsAppConfig db userId =
               (if has_credentials m then Inr (config_of m fallback_user_config) else Inl noActiveConfig)))
   \<and> ((\<forall>r\<in>set (user_whatsapp_config db). \<not> cfg_is_active r)
     \<longrightarrow> getWhatsAppConfig db userId = Inl noActiveConfig)
   \<and> (\<forall>c. getWhatsAppConfig db userId = Inr c
     \<longrightarrow> (\<exists>r\<in>set (user_whatsapp_config db). cfg_is_active r \<and> has_credentials r
           \<and> (c = config_of r user_config \<or> c = config_of r fallback_user_config)))
   \<and> (\<forall>e. getWhatsAppConfig db userId = Inl e \<longrightarrow> e = noActiveConfig)"
proof (intro conjI allI impI)
  fix u r
  assume "userId = Some u \<and> u \<noteq> [] \<and> store_fault db = None
       \<and> filter (\<lambda>r. cfg_user_id r = u \<and> cfg_is_active r) (user_whatsapp_config db) = [r]
       \<and> has_credentials r"
  then have "userScopedConfig db userId = Some (config_of r user_config)"
    by (simp add: userScopedConfig_one)
  then show "getWhatsAppConfig db userId = Inr (config_of r user_config)"
    by (simp add: getWhatsAppConfig_def)
next
  let ?active = "filter cfg_is_active (user_whatsapp_config db)"
  assume a: "store_fault db = None
       \<and> \<not> (\<exists>u r. userId = Some u \<and> u \<noteq> []
              \<and> filter (\<lambda>r. cfg_user_id r = u \<and> cfg_is_active r) (user_whatsapp_config db) = [r]
              \<and> has_credentials r)
       \<and> (\<exists>r\<in>set (user_whatsapp_config db). cfg_is_active r)"
  have n: "userScopedConfig db userId = None"
  proof (cases "userScopedConfig db userId")
    case None
    then show ?thesis .
  next
    case (Some c)
    from userScopedConfig_Some [OF Some] a show ?thesis by blast
  qed
  from a have "?active \<noteq> []" by (auto simp: filter_empty_conv)
  with mostRecent_cases [of ?active] obtain m where m: "mostRecent ?active = [m]" "m \<in> set ?active"
    "\<forall>r\<in>set ?active. cfg_updated_at r \<le> cfg_updated_at m" by blast
  have "getWhatsAppConfig db userId =
          (if has_credentials m then Inr (config_of m fallback_user_config) else Inl noActiveConfig)"
    using a m(1) by (simp add: getWhatsAppConfig_fallback [OF n] maybeSingle_one)
  with m show "\<exists>m\<in>set (user_whatsapp_config db). cfg_is_active m
           \<and> (\<forall>r\<in>set (user_whatsapp_config db). cfg_is_active r \<longrightarrow> cfg_updated_at r \<le> cfg_updated_at m)
           \<and> getWhatsAppConfig db userId =
               (if has_credentials m then Inr (config_of m fallback_user_config) else Inl noActiveConfig)"
    by auto
next
  assume a: "\<forall>r\<in>set (user_whatsapp_config db). \<not> cfg_is_active r"
  then have e: "filter cfg_is_active (user_whatsapp_config db) = []"
    "\<And>u. filter (\<lambda>r. cfg_user_id r = u \<and> cfg_is_active r) (user_whatsapp_config db) = []"
    by (auto simp: filter_empty_conv)
  have "userScopedConfig db userId = None"
    by (auto simp: userScopedConfig_def e maybeSingle_def split: option.splits)
  then show "getWhatsAppConfig db userId = Inl noActiveConfig"
    by (simp add: getWhatsAppConfig_fallback e maybeSingle_def split: option.splits)
next
  fix c
  let ?active = "filter cfg_is_active (user_whatsapp_config db)"
  assume r: "getWhatsAppConfig db userId = Inr c"
  show "\<exists>r\<in>set (user_whatsapp_config db). cfg_is_active r \<and> has_credentials r
           \<and> (c = config_of r user_config \<or> c = config_of r fallback_user_config)"
  proof (cases "userScopedConfig db userId")
    case (Some c')
    with r have "c' = c" by (simp add: getWhatsAppConfig_def)
    with userScopedConfig_Some [OF Some] obtain u x where
      x: "filter (\<lambda>r. cfg_user_id r = u \<and> cfg_is_active r) (user_whatsapp_config db) = [x]"
        "has_credentials x" "c = config_of x user_config" by blast
    from x(1) have "x \<in> set (filter (\<lambda>r. cfg_user_id r = u \<and> cfg_is_active r) (user_whatsapp_config db))"
      by simp
    then have "x \<in> set (user_whatsapp_config db) \<and> cfg_is_active x" by simp
    with x show ?thesis by blast
  next
    case None
    from r obtain m where m: "maybeSingle (store_fault db) (mostRecent ?active) = Inr (Some m)"
      "has_credentials m" "c = config_of m fallback_user_config"
      unfolding getWhatsAppConfig_fallback [OF None]
      by (auto split: sum.splits option.splits if_splits)
    from m(1) have "mostRecent ?active = [m]"
      by (auto simp: maybeSingle_def split: option.splits list.splits)
    with mostRecent_cases [of ?active] have "m \<in> set ?active" by auto
    with m show ?thesis by auto
  qed
next
  fix e
  assume "getWhatsAppConfig db userId = Inl e"
  then show "e = noActiveConfig"
    by (auto simp: getWhatsAppConfig_def split: option.splits sum.splits if_splits)
qed

lemma store0_fields: "message_logs store0 = [log1]" "store_fault store0 = None"
  "user_whatsapp_config store0 = [cfg1, cfg2]"
  by (simp_all add: store0_def)

lemma cfg_facts:
  "cfg_is_active cfg1" "cfg_is_active cfg2" "has_credentials cfg1" "has_credentials cfg2"
  "cfg_updated_at cfg1 = 10" "cfg_updated_at cfg2 = 20"
  "cfg_user_id cfg1 = js ''u1''" "cfg_user_id cfg2 = js ''u2''"
  by (simp_all add: cfg1_def cfg2_def has_credentials_def truthy_def js_def)

lemma user_ids: "js ''u1'' \<noteq> js ''u2''" "js ''u1'' \<noteq> []"
  by (simp_all add: js_def)

theorem getWhatsAppConfig_precedence_witness:
  "getWhatsAppConfig store0 (Some (js ''u1'')) = Inr (config_of cfg1 user_config)
   \<and> getWhatsAppConfig store0 None = Inr (config_of cfg2 fallback_user_config)
   \<and> getWhatsAppConfig emptyStore None = Inl noActiveConfig"
proof -
  have f: "filter (\<lambda>r. cfg_user_id r = js ''u1'' \<and> cfg_is_active r) (user_whatsapp_config store0) = [cfg1]"
    using user_ids by (auto simp: store0_fields cfg_facts)
  from getWhatsAppConfig_precedence [of "Some (js ''u1'')" store0] f
  have 1: "getWhatsAppConfig store0 (Some (js ''u1'')) = Inr (config_of cfg1 user_config)"
    by (simp add: user_ids store0_fields cfg_facts)
  from getWhatsAppConfig_precedence [of None store0]
  have 2: "getWhatsAppConfig store0 None = Inr (config_of cfg2 fallback_user_config)"
    by (auto simp: store0_fields cfg_facts)
  from getWhatsAppConfig_precedence [of None emptyStore]
  have 3: "getWhatsAppConfig emptyStore None = Inl noActiveConfig"
    by (simp add: emptyStore_def)
  from 1 2 3 show ?thesis by simp
qed

section \<open>Properties of the status update\<close>

lemma update_status_unknown:
  assumes "store_fault db = None" "\<forall>r\<in>set (message_logs db). log_message_id r \<noteq> Some messageId"
  shows "update_status db now messageId status = (None, db)"
proof -
  have "map (\<lambda>r. if log_message_id r = Some messageId
                   then r\<lparr>log_status := status, log_updated_at := Some now\<rparr> else r) (message_logs db)
        = message_logs db"
    using assms(2) by (simp add: map_idI)
  then show ?thesis using assms(1) by (simp add: update_status_def)
qed

lemma update_status_frame:
  assumes "\<forall>r\<in>set (message_logs db). log_message_id r \<noteq> Some messageId"
  shows "snd (update_status db now messageId status) = db"
proof (cases "store_fault db")
  case None
  then show ?thesis using assms by (simp add: update_status_unknown)
next
  case (Some e)
  then show ?thesis by (simp add: update_status_def)
qed

text \<open>
  C8: a status update whose message id no log row carries is answered with success, by
  \<open>processStatusUpdate\<close> (both fields present, the store answering) and by the
  handler's branch (environment set, the store answering), and the store after it is the
  store before it. The store is left as it was also when the answer is a failure.
\<close>

theorem status_update_unknown_id:
  "(\<forall>mid st. su_messageId data = Some mid \<and> mid \<noteq> [] \<and> su_status data = Some st \<and> st \<noteq> []
       \<and> store_fault db = None \<and> (\<forall>r\<in>set (message_logs db). log_message_id r \<noteq> Some mid)
     \<longrightarrow> processStatusUpdate db now data =
           (\<lparr>reply_success = True, reply_message = Some (js ''Status updated to '' @ st),
             reply_error = None\<rparr>, db))
   \<and> (truthy (SUPABASE_URL env) \<and> truthy (SUPABASE_ANON_KEY env) \<and> store_fault db = None
       \<and> (\<forall>r\<in>set (message_logs db). log_message_id r \<noteq> Some messageId)
     \<longrightarrow> statusUpdateBranch env db now messageId status =
           (\<lparr>http_status = 200, body_success = Some True,
             body_message = Some (js ''Status updated to '' @ status), body_response = None,
             body_chatbotType = None, body_error = None\<rparr>, db))
   \<and> ((\<forall>mid. su_messageId data = Some mid \<longrightarrow> (\<forall>r\<in>set (message_logs db). log_message_id r \<noteq> Some mid))
     \<longrightarrow> snd (processStatusUpdate db now data) = db)
   \<and> ((\<forall>r\<in>set (message_logs db). log_message_id r \<noteq> Some messageId)
     \<longrightarrow> snd (statusUpdateBranch env db now messageId status) = db)"
proof (intro conjI allI impI)
  fix mid st
  assume "su_messageId data = Some mid \<and> mid \<noteq> [] \<and> su_status data = Some st \<and> st \<noteq> []
       \<and> store_fault db = None \<and> (\<forall>r\<in>set (message_logs db). log_message_id r \<noteq> Some mid)"
  then show "processStatusUpdate db now data =
           (\<lparr>reply_success = True, reply_message = Some (js ''Status updated to '' @ st),
             reply_error = None\<rparr>, db)"
    by (simp add: processStatusUpdate_def update_status_unknown)
next
  assume "truthy (SUPABASE_URL env) \<and> truthy (SUPABASE_ANON_KEY env) \<and> store_fault db = None
       \<and> (\<forall>r\<in>set (message_logs db). log_message_id r \<noteq> Some messageId)"
  then show "statusUpdateBranch env db now messageId status =
           (\<lparr>http_status = 200, body_success = Some True,
             body_message = Some (js ''Status updated to '' @ status), body_response = None,
             body_chatbotType = None, body_error = None\<rparr>, db)"
    by (simp add: statusUpdateBranch_def update_status_unknown)
next
  assume a: "\<forall>mid. su_messageId data = Some mid \<longrightarrow> (\<forall>r\<in>set (message_logs db). log_message_id r \<noteq> Some mid)"
  show "snd (processStatusUpdate db now data) = db"
  proof (cases "su_messageId data")
    case None
    then show ?thesis by (simp add: processStatusUpdate_def)
  next
    case (Some mid)
    with a have f: "snd (update_status db now mid st) = db" for st
      by (simp add: update_status_frame)
    show ?thesis
    proof (cases "su_status data")
      case None
      then show ?thesis using Some by (simp add: processStatusUpdate_def)
    next
      case st: (Some st)
      obtain e d where u: "update_status db now mid st = (e, d)" by (cases "update_status db now mid st")
      with f [of st] have "d = db" by simp
      with u Some st show ?thesis
        by (cases e) (simp_all add: processStatusUpdate_def)
    qed
  qed
next
  assume a: "\<forall>r\<in>set (message_logs db). log_message_id r \<noteq> Some messageId"
  obtain e d where u: "update_status db now messageId status = (e, d)"
    by (cases "update_status db now messageId status")
  with update_status_frame [OF a, of now status] have "d = db" by simp
  with u show "snd (statusUpdateBranch env db now messageId status) = db"
    by (cases e) (simp_all add: statusUpdateBranch_def)
qed

lemma log1_id: "log_message_id log1 = Some (js ''wamid.A'')"
  by (simp add: log1_def sentLog_def)

theorem status_update_unknown_id_witness:
  "processStatusUpdate store0 7 \<lparr>su_messageId = Some (js ''wamid.X''), su_status = Some (js ''delivered'')\<rparr>
     = (\<lparr>reply_success = True, reply_message = Some (js ''Status updated to delivered''),
         reply_error = None\<rparr>, store0)
   \<and> statusUpdateBranch \<lparr>SUPABASE_URL = Some (js ''https://db''), SUPABASE_ANON_KEY = Some (js ''key'')\<rparr>
        store0 7 (js ''wamid.X'') (js ''delivered'')
     = (\<lparr>http_status = 200, body_success = Some True,
         body_message = Some (js ''Status updated to delivered''), body_response = None,
         body_chatbotType = None, body_error = None\<rparr>, store0)"
proof -
  have n: "\<forall>r\<in>set (message_logs store0). log_message_id r \<noteq> Some (js ''wamid.X'')"
    by (simp add: store0_fields log1_id js_def)
  have j: "js ''wamid.X'' \<noteq> []" "js ''delivered'' \<noteq> []" "js ''https://db'' \<noteq> []" "js ''key'' \<noteq> []"
    "js ''Status updated to '' @ js ''delivered'' = js ''Status updated to delivered''"
    by (simp_all add: js_def)
  show ?thesis
    using status_update_unknown_id [of "\<lparr>su_messageId = Some (js ''wamid.X''), su_status = Some (js ''delivered'')\<rparr>"
        store0 7 "\<lparr>SUPABASE_URL = Some (js ''https://db''), SUPABASE_ANON_KEY = Some (js ''key'')\<rparr>"
        "js ''wamid.X''" "js ''delivered''"] n j
    by (simp add: store0_fields truthy_def)
qed

section \<open>Properties of the delivery channel\<close>

text \<open>
  C9, as stated, fails twice. A user without id asks a store whose newest active row has
  no access token while older active rows have both credentials: the operation fails
  instead of returning an active configuration. A user with two active rows, both with
  credentials, asks: the first query errs on the two rows, and the configuration returned
  is the newest active one, another user's.
\<close>

theorem getWhatsAppConfig_precedence_counterexample:
  "cfg_is_active cfg1 \<and> has_credentials cfg1 \<and> cfg1 \<in> set (user_whatsapp_config storeNewestWithoutToken)
   \<and> getWhatsAppConfig storeNewestWithoutToken None = Inl noActiveConfig
   \<and> cfg_user_id cfg1 = js ''u1'' \<and> cfg1 \<in> set (user_whatsapp_config storeTwoRows)
   \<and> cfg_user_id cfg2 \<noteq> js ''u1''
   \<and> getWhatsAppConfig storeTwoRows (Some (js ''u1'')) = Inr (config_of cfg2 fallback_user_config)"
proof -
  have b: "cfg_is_active cfg3" "\<not> has_credentials cfg3" "cfg_updated_at cfg3 = 30"
    "cfg_is_active cfg1b" "cfg_user_id cfg1b = js ''u1''" "cfg_updated_at cfg1b = 5"
    by (simp_all add: cfg3_def cfg1b_def has_credentials_def truthy_def)
  have 1: "getWhatsAppConfig storeNewestWithoutToken None = Inl noActiveConfig"
    by (simp add: getWhatsAppConfig_def userScopedConfig_def storeNewestWithoutToken_def cfg_facts b
        maybeSingle_def)
  have 2: "getWhatsAppConfig storeTwoRows (Some (js ''u1'')) = Inr (config_of cfg2 fallback_user_config)"
    using user_ids
    by (simp add: getWhatsAppConfig_def userScopedConfig_def storeTwoRows_def cfg_facts b maybeSingle_def)
  from 1 2 user_ids show ?thesis
    by (simp add: cfg_facts storeNewestWithoutToken_def storeTwoRows_def)
qed

lemma getWhatsAppConfig_store0: "getWhatsAppConfig store0 None = Inr (config_of cfg2 fallback_user_config)"
  by (simp add: getWhatsAppConfig_def userScopedConfig_def store0_fields cfg_facts maybeSingle_def)

lemma sanitize_Hello: "sanitizeWhatsAppMessage (js ''Hello'') = Inr (js ''Hello'')"
  by (simp add: sanitizeWhatsAppMessage_def cleanMessage_def js_def removeAngleBrackets_def
      decodeEntities_def htmlEntities_def trim_def isSpace_def)

lemma showNat_404: "showNat 404 = js ''404''"
  by (simp add: js_def)

lemma sendWhatsAppResponse_failure_frame:
  "sendWhatsAppResponse net db now to message m userId = (Inl e, db') \<Longrightarrow> db' = db"
  by (auto simp: sendWhatsAppResponse_def split: sum.splits provider_response.splits)

lemma sendWhatsAppResponse_success_log:
  assumes "sendWhatsAppResponse net db now to message m userId = (Inr messageId, db')"
    and "store_fault db = None"
  shows "\<exists>row. message_logs db' = message_logs db @ [row] \<and> log_status row = js ''sent''
           \<and> log_message_id row = messageId \<and> log_phone_number row = to"
  using assms
  by (auto simp: sendWhatsAppResponse_def insert_log_def sentLog_def
      split: sum.splits provider_response.splits)

lemma sendOne_log:
  assumes "store_fault db = None"
  shows "\<exists>row. message_logs (snd (sendOne net config now db msg)) = message_logs db @ [row]
           \<and> (case trySend net config msg of
                 Inr messageId \<Rightarrow> log_status row = js ''sent'' \<and> log_message_id row = messageId
                   \<and> res_status (fst (sendOne net config now db msg)) = status_success
               | Inl e \<Rightarrow> log_status row = js ''error'' \<and> log_error row = Some (message_of e)
                   \<and> res_status (fst (sendOne net config now db msg)) = status_error)"
  using assms
  by (auto simp: sendOne_def insert_log_def sentLog_def errorLog_def split: sum.splits)

text \<open>
  C7: \<open>sendWhatsAppResponse\<close> with a media address that answers 404 throws and leaves
  the store as it was: no row with status \<open>error\<close> is written. The batch sender's
  \<open>catch\<close>, on the same message, does write that row.
\<close>

theorem sendWhatsAppResponse_media_failure:
  "sendWhatsAppResponse netMediaDown store0 7 (js ''+242055123456'') (js ''Hello'') (Some picture) None
     = (Inl (Error (js ''Invalid media URL: Media URL not accessible: 404'')), store0)
   \<and> message_logs (snd (sendOne netMediaDown (config_of cfg2 fallback_user_config) 7 store0
        \<lparr>msg_phoneNumber = js ''+242055123456'', msg_message = js ''Hello'', msg_variables = None,
         msg_media = Some picture\<rparr>))
     = message_logs store0 @
         [errorLog (js ''+242055123456'') (js ''Hello'')
            (js ''Invalid media URL: Media URL not accessible: 404 Not Found'') 7]"
proof -
  have u: "js ''https://example.com/a.png'' \<noteq> []" by (simp add: js_def)
  have p1: "responsePayload netMediaDown (js ''+242055123456'') (js ''Hello'') (Some picture)
      = Inl (Error (js ''Invalid media URL: Media URL not accessible: 404''))"
    using u by (simp add: responsePayload_def responseMediaPayload_def picture_def netMediaDown_def
        netOk_def showNat_404) (simp add: js_def)
  have p2: "batchPayload netMediaDown \<lparr>msg_phoneNumber = js ''+242055123456'', msg_message = js ''Hello'',
        msg_variables = None, msg_media = Some picture\<rparr>
      = Inl (Error (js ''Invalid media URL: Media URL not accessible: 404 Not Found''))"
    using u by (simp add: batchPayload_def batchMediaPayload_def picture_def netMediaDown_def
        netOk_def showNat_404 Let_def) (simp add: js_def)
  have l: "take 100 (js ''Hello'') = js ''Hello''" by (simp add: js_def)
  show ?thesis
    by (simp add: sendWhatsAppResponse_def sanitize_Hello getWhatsAppConfig_store0 p1
        sendOne_def trySend_def p2 insert_log_def store0_fields l)
qed
















section \<open>Properties of the responder\<close>



























lemma apiChatbotTail_throws: "apiChatbotTail content = Inl (Error (js ''requestData is not defined''))"
  by (simp add: apiChatbotTail_def startTime_def apiChatbotCatch_def)





end
